theory Spec2Isabelle
  imports Main "HOL-Library.Word"
begin

section \<open>The adapter registry (\<^verbatim>\<open>DEXS\<close>)\<close>

text \<open>
  The registry is an object literal with five own entries. The two adapter classes are
  imported from two different modules (\<^verbatim>\<open>./uniswap-v1\<close>, \<^verbatim>\<open>./uniswap-v2\<close>); they are the
  two values of the type below. The literal is kept as the association list it is written
  as.
\<close>

datatype Adapter = UniswapV1 | UniswapV2

definition DEXS :: "(string \<times> Adapter) list" where
  "DEXS =
    [(''uniswap'', UniswapV1),
     (''uniswapv2'', UniswapV2),
     (''sushiswap'', UniswapV2),
     (''defiswap'', UniswapV2),
     (''linkswap'', UniswapV2)]"

text \<open>
  The registry is exported as it is, and the read it offers is the index expression
  \<^verbatim>\<open>DEXS[dex]\<close>. The literal is a plain object: a name that is not an own entry is looked up
  on \<^verbatim>\<open>Object.prototype\<close>, whose members (the language's standard ones, the legacy accessors
  included) are listed below, and reads as \<^verbatim>\<open>undefined\<close> (\<open>None\<close>) when it is not there either.
\<close>

definition objectPrototype :: "string list" where
  "objectPrototype =
    [''constructor'', ''__defineGetter__'', ''__defineSetter__'', ''hasOwnProperty'',
     ''__lookupGetter__'', ''__lookupSetter__'', ''isPrototypeOf'', ''propertyIsEnumerable'',
     ''toString'', ''valueOf'', ''__proto__'', ''toLocaleString'']"

datatype Found = Registered Adapter | Inherited string

definition lookup :: "string \<Rightarrow> Found option" where
  "lookup dex =
     (case map_of DEXS dex of
        Some adapter \<Rightarrow> Some (Registered adapter)
      | None \<Rightarrow> if dex \<in> set objectPrototype then Some (Inherited dex) else None)"


section \<open>Run-time values\<close>

text \<open>
  The value caught by a \<^verbatim>\<open>catch (e)\<close> has type \<^verbatim>\<open>unknown\<close>, and a response body has type
  \<^verbatim>\<open>any\<close>. The values considered are: \<^verbatim>\<open>undefined\<close>, \<^verbatim>\<open>null\<close>, booleans, the numbers that are
  signed integers of 32 bits (a status code is one), strings, plain objects (their own
  properties, in order) and \<^verbatim>\<open>Error\<close> instances (name, message, and the further own properties
  assigned to them, as an HTTP client does with \<^verbatim>\<open>isAxiosError\<close> and \<^verbatim>\<open>response\<close>). There are no
  functions among the values, so no own property of an object is callable.
\<close>

datatype jsval =
    JUndefined
  | JNull
  | JBool bool
  | JNum "32 word"
  | JStr string
  | JObj "(string \<times> jsval) list"
  | JErr string string "(string \<times> jsval) list"

datatype error =
    AssertionError string
  | TypeError string

text \<open>Truthiness, as \<^verbatim>\<open>!x\<close> and \<^verbatim>\<open>x ? a : b\<close> read it.\<close>

fun truthy :: "jsval \<Rightarrow> bool" where
  "truthy JUndefined = False"
| "truthy JNull = False"
| "truthy (JBool b) = b"
| "truthy (JNum n) = (n \<noteq> 0)"
| "truthy (JStr s) = (s \<noteq> [])"
| "truthy (JObj ps) = True"
| "truthy (JErr n m ps) = True"

fun nullish :: "jsval \<Rightarrow> bool" where
  "nullish JUndefined = True"
| "nullish JNull = True"
| "nullish v = False"

text \<open>
  Reading one of the properties the facade reads (\<^verbatim>\<open>isAxiosError\<close>, \<^verbatim>\<open>response\<close>, \<^verbatim>\<open>message\<close>,
  \<^verbatim>\<open>status\<close>, \<^verbatim>\<open>data\<close>, \<^verbatim>\<open>error\<close>) of a value that is neither \<^verbatim>\<open>undefined\<close> nor \<^verbatim>\<open>null\<close>. None of
  these names is a member of the prototype of objects, booleans, numbers or strings, so a
  name that is not an own property reads as \<^verbatim>\<open>undefined\<close>. The \<^verbatim>\<open>name\<close> and \<^verbatim>\<open>message\<close> of an
  \<^verbatim>\<open>Error\<close> instance are its two string fields; its list holds its other own properties.
\<close>

fun get :: "jsval \<Rightarrow> string \<Rightarrow> jsval" where
  "get (JObj ps) k = (case map_of ps k of Some v \<Rightarrow> v | None \<Rightarrow> JUndefined)"
| "get (JErr n m ps) k =
     (if k = ''message'' then JStr m
      else if k = ''name'' then JStr n
      else case map_of ps k of Some v \<Rightarrow> v | None \<Rightarrow> JUndefined)"
| "get v k = JUndefined"

text \<open>
  The member expression \<^verbatim>\<open>v.k\<close> on any value: reading a property of \<^verbatim>\<open>undefined\<close> or \<^verbatim>\<open>null\<close>
  throws a \<^verbatim>\<open>TypeError\<close>.
\<close>

definition member :: "jsval \<Rightarrow> string \<Rightarrow> error + jsval" where
  "member v k =
     (if nullish v then Inl (TypeError (''Cannot read properties of null or undefined: '' @ k))
      else Inr (get v k))"

text \<open>
  Decimal rendering of a number, for string conversion: a signed integer of 32 bits is
  printed as its decimal digits.
\<close>

fun digit :: "nat \<Rightarrow> char" where
  "digit n = ''0123456789'' ! (n mod 10)"

fun showNat :: "nat \<Rightarrow> string" where
  "showNat n = (if n < 10 then [digit n] else showNat (n div 10) @ [digit n])"

declare showNat.simps [simp del]

definition showInt :: "int \<Rightarrow> string" where
  "showInt i = (if i < 0 then CHR ''-'' # showNat (nat (- i)) else showNat (nat i))"

text \<open>
  String conversion, as the template literal \<^verbatim>\<open>`${e}`\<close> performs it. An object is converted
  by its \<^verbatim>\<open>toString\<close> method. An object with an own property \<^verbatim>\<open>toString\<close> has no callable one
  (and the inherited \<^verbatim>\<open>valueOf\<close>, tried next, returns the object itself): the conversion
  throws a \<^verbatim>\<open>TypeError\<close>. Otherwise the inherited method runs: a plain object prints as
  \<^verbatim>\<open>[object Object]\<close>, an \<^verbatim>\<open>Error\<close> instance prints its name and message.
\<close>

fun toString :: "jsval \<Rightarrow> error + string" where
  "toString JUndefined = Inr ''undefined''"
| "toString JNull = Inr ''null''"
| "toString (JBool b) = Inr (if b then ''true'' else ''false'')"
| "toString (JNum n) = Inr (showInt (sint n))"
| "toString (JStr s) = Inr s"
| "toString (JObj ps) =
     (case map_of ps ''toString'' of
        Some v \<Rightarrow> Inl (TypeError ''Cannot convert object to primitive value'')
      | None \<Rightarrow> Inr ''[object Object]'')"
| "toString (JErr n m ps) =
     (case map_of ps ''toString'' of
        Some v \<Rightarrow> Inl (TypeError ''Cannot convert object to primitive value'')
      | None \<Rightarrow> Inr (if n = [] then m else if m = [] then n else n @ '': '' @ m))"

text \<open>
  \<^verbatim>\<open>axios.isAxiosError\<close> (the HTTP client library): the payload is an object and its
  \<^verbatim>\<open>isAxiosError\<close> property is exactly \<^verbatim>\<open>true\<close>.
\<close>

fun isObject :: "jsval \<Rightarrow> bool" where
  "isObject (JObj ps) = True"
| "isObject (JErr n m ps) = True"
| "isObject v = False"

definition isAxiosError :: "jsval \<Rightarrow> bool" where
  "isAxiosError payload = (isObject payload \<and> get payload ''isAxiosError'' = JBool True)"


section \<open>Error normalisation (\<^verbatim>\<open>ParaSwap.handleAPIError\<close>)\<close>

text \<open>
  \<^verbatim>\<open>type APIError = { message: string; status?: number; data?: any }\<close>. An optional field is
  \<open>None\<close> when the object literal does not mention the key. The fields hold run-time values:
  \<^verbatim>\<open>data.error\<close> has type \<^verbatim>\<open>any\<close>.
\<close>

record APIError =
  message :: jsval
  status :: "jsval option"
  data :: "jsval option"

definition handleAPIError :: "jsval \<Rightarrow> error + APIError" where
  "handleAPIError e =
     (if \<not> isAxiosError e then
        (case toString e of
           Inl err \<Rightarrow> Inl err
         | Inr str \<Rightarrow>
             Inr \<lparr>message = JStr (''Unknown error: '' @ str), status = None, data = None\<rparr>)
      else if \<not> truthy (get e ''response'') then
        Inr \<lparr>message = get e ''message'', status = None, data = None\<rparr>
      else
        let response = get e ''response'';
            status = get response ''status'';
            data = get response ''data''
        in case member data ''error'' of
             Inl err \<Rightarrow> Inl err
           | Inr msg \<Rightarrow> Inr \<lparr>message = msg, status = Some status, data = Some data\<rparr>)"


section \<open>The facade (\<^verbatim>\<open>class ParaSwap\<close>)\<close>

subsection \<open>Collaborators\<close>

text \<open>
  Modelled from the spec: \<^verbatim>\<open>constructAxiosFetcher\<close> and \<^verbatim>\<open>constructFetchFetcher\<close> (module
  \<^verbatim>\<open>./helpers\<close>) are not part of the source at hand. Each wraps the transport it is given into
  a fetcher, which is a function and so never \<^verbatim>\<open>null\<close>. The transport objects themselves are
  opaque (type variables).
\<close>

datatype ('ax, 'fe) Fetcher =
    constructAxiosFetcher 'ax
  | constructFetchFetcher 'fe

text \<open>
  Modelled from the spec: \<^verbatim>\<open>constructEthersContractCaller\<close> and \<^verbatim>\<open>constructWeb3ContractCaller\<close>
  (module \<^verbatim>\<open>./helpers\<close>) are not part of the source at hand. Each wraps the provider it is
  given into a contract-calling backend, which is a function and so never \<^verbatim>\<open>null\<close>. The
  provider objects themselves are opaque (type variables).
\<close>

datatype ('w3, 'et) ContractCaller =
    constructEthersContractCaller 'et
  | constructWeb3ContractCaller 'w3

text \<open>
  The configuration object handed to the SDK constructors: \<^verbatim>\<open>{ fetcher, apiURL, network }\<close>
  for the partial SDK, \<^verbatim>\<open>{ fetcher, contractCaller, apiURL, network }\<close> for the full one.
\<close>

record ('ax, 'fe, 'w3, 'et) ConstructInput =
  cfg_fetcher :: "('ax, 'fe) Fetcher"
  cfg_contractCaller :: "('w3, 'et) ContractCaller option"
  cfg_apiURL :: string
  cfg_network :: int

text \<open>\<^verbatim>\<open>SwapSide\<close> is an enumeration of module \<^verbatim>\<open>./constants\<close>; the facade refers to \<^verbatim>\<open>SELL\<close> only.\<close>

datatype SwapSide = SELL | BUY

type_synonym Address = string
type_synonym AddressOrSymbol = string
type_synonym PriceString = string

text \<open>The members of \<^verbatim>\<open>AllSDKMethods\<close> that the facade reads from \<^verbatim>\<open>this.sdk\<close>.\<close>

datatype SDKMethod =
    SDK_getTokens
  | SDK_getAdapters
  | SDK_getRateByRoute
  | SDK_getRate
  | SDK_buildTx
  | SDK_getSpender
  | SDK_getAllowances
  | SDK_getAllowance
  | SDK_approveTokenBulk
  | SDK_approveToken
  | SDK_getBalance
  | SDK_getBalances

text \<open>
  The arguments of a delegated call, one constructor for each call shape of the facade.
  Optional parameters are options (\<open>None\<close> is \<^verbatim>\<open>undefined\<close>); option bags, the price route and
  other objects the facade only passes along are run-time values.
\<close>

datatype SDKArgs =
    NoArgs
  | AdaptersArgs string "bool option"
      \<comment> \<open>\<^verbatim>\<open>{ type, namesOnly }\<close>\<close>
  | RateByRouteArgs "AddressOrSymbol list" PriceString "Address option" SwapSide
      "jsval option" "int option" "int option"
      \<comment> \<open>\<^verbatim>\<open>{ route, amount, userAddress, side, options, srcDecimals, destDecimals }\<close>\<close>
  | RateArgs AddressOrSymbol AddressOrSymbol PriceString "Address option" SwapSide
      jsval "int option" "int option"
      \<comment> \<open>\<^verbatim>\<open>{ srcToken, destToken, amount, userAddress, side, options, srcDecimals, destDecimals }\<close>\<close>
  | BuildTxArgs Address Address PriceString PriceString jsval Address
      "string option" "string option" "int option" "Address option"
      "int option" "int option" "string option" "string option" jsval
      \<comment> \<open>\<^verbatim>\<open>{ srcToken, destToken, srcAmount, destAmount, priceRoute, userAddress, partner,
          partnerAddress, partnerFeeBps, receiver, srcDecimals, destDecimals, permit, deadline }\<close>,
          then \<^verbatim>\<open>options\<close>\<close>
  | AllowancesArgs Address "Address list"
  | AllowanceArgs Address Address
  | ApproveBulkArgs PriceString "Address list"
  | ApproveArgs PriceString Address
  | BalanceArgs Address AddressOrSymbol
  | BalancesArgs Address

text \<open>
  An asynchronous call runs against the outside world (the network, the chain), whose state
  is \<open>'s\<close>: it returns the new state and either the value the promise resolves with
  (\<open>Inr\<close>) or the value it rejects with (\<open>Inl\<close>).
\<close>

type_synonym ('p, 's) Async = "'s \<Rightarrow> (jsval + 'p) \<times> 's"
type_synonym ('p, 's) SDKFunction = "SDKArgs \<Rightarrow> ('p, 's) Async"

text \<open>\<^verbatim>\<open>Partial<AllSDKMethods>\<close>: every member may be missing. \<^verbatim>\<open>{}\<close> is \<open>Map.empty\<close>.\<close>

type_synonym ('p, 's) PartialSDK = "SDKMethod \<Rightarrow> ('p, 's) SDKFunction option"

text \<open>
  The SDK constructors (\<^verbatim>\<open>constructGetBalances\<close>, \<^verbatim>\<open>constructGetTokens\<close>,
  \<^verbatim>\<open>constructGetSpender\<close>, \<^verbatim>\<open>constructBuildTx\<close>, \<^verbatim>\<open>constructGetAdapters\<close>, \<^verbatim>\<open>constructGetRate\<close>,
  \<^verbatim>\<open>constructPartialSDK\<close>, \<^verbatim>\<open>constructSDK\<close>) are imported by the facade and are not part of
  the source at hand. What a member of the SDK does when called is a parameter \<open>impl\<close>: any
  behaviour, as a function of the configuration the SDK was built from.
\<close>

type_synonym ('ax, 'fe, 'w3, 'et, 'p, 's) Impl =
  "('ax, 'fe, 'w3, 'et) ConstructInput \<Rightarrow> SDKMethod \<Rightarrow> ('p, 's) SDKFunction"

datatype Constructor =
    constructGetBalances
  | constructGetTokens
  | constructGetSpender
  | constructBuildTx
  | constructGetAdapters
  | constructGetRate

text \<open>
  Modelled from the spec: the members each of the six constructors contributes. The spec
  lists what the six give together, the read-only capability set: token listing, balance
  queries, spender-address lookup, transaction building, adapter/market listing and rate
  queries; allowance queries and approval transactions are not in it.
\<close>

fun provides :: "Constructor \<Rightarrow> SDKMethod list" where
  "provides constructGetBalances = [SDK_getBalance, SDK_getBalances]"
| "provides constructGetTokens = [SDK_getTokens]"
| "provides constructGetSpender = [SDK_getSpender]"
| "provides constructBuildTx = [SDK_buildTx]"
| "provides constructGetAdapters = [SDK_getAdapters]"
| "provides constructGetRate = [SDK_getRate, SDK_getRateByRoute]"

text \<open>
  Modelled from the spec: \<^verbatim>\<open>constructPartialSDK\<close> is not part of the source at hand. It
  assembles the members of the constructors it is given, each built from the configuration.
\<close>

definition constructPartialSDK ::
  "('ax, 'fe, 'w3, 'et, 'p, 's) Impl \<Rightarrow> ('ax, 'fe, 'w3, 'et) ConstructInput \<Rightarrow>
   Constructor list \<Rightarrow> ('p, 's) PartialSDK" where
  "constructPartialSDK impl config constructors =
     (\<lambda>m. if List.member (concat (map provides constructors)) m
          then Some (impl config m) else None)"

text \<open>
  Modelled from the spec: \<^verbatim>\<open>constructSDK\<close> is not part of the source at hand. It gives the
  full capability set: everything in the read-only set plus allowance queries and approval
  transactions, that is, every member.
\<close>

definition constructSDK ::
  "('ax, 'fe, 'w3, 'et, 'p, 's) Impl \<Rightarrow> ('ax, 'fe, 'w3, 'et) ConstructInput \<Rightarrow>
   ('p, 's) PartialSDK" where
  "constructSDK impl config = (\<lambda>m. Some (impl config m))"


subsection \<open>Construction\<close>

definition API_URL :: string where
  "API_URL = ''https://apiv5.paraswap.io''"

text \<open>
  The instance: the field \<^verbatim>\<open>sdk\<close> and the four parameter properties \<^verbatim>\<open>network\<close>, \<^verbatim>\<open>apiURL\<close>,
  \<^verbatim>\<open>web3Provider\<close>, \<^verbatim>\<open>ethersProvider\<close>.
\<close>

record ('w3, 'et, 'p, 's) ParaSwap =
  sdk :: "('p, 's) PartialSDK"
  network :: int
  apiURL :: string
  web3Provider :: "'w3 option"
  ethersProvider :: "'et option"

text \<open>
  Lines 78 to 100 of the constructor, once \<^verbatim>\<open>fetcher\<close> is known to be non-null. The field
  \<^verbatim>\<open>sdk\<close> starts as \<^verbatim>\<open>{}\<close> and is assigned in the first branch (which returns) or when a
  contract-calling backend is resolved.
\<close>

definition assemble ::
  "('ax, 'fe, 'w3, 'et, 'p, 's) Impl \<Rightarrow> ('ax, 'fe) Fetcher \<Rightarrow> int \<Rightarrow> string \<Rightarrow>
   'w3 option \<Rightarrow> 'et option \<Rightarrow> ('w3, 'et, 'p, 's) ParaSwap" where
  "assemble impl fetcher network' apiURL' web3Provider' ethersProvider' =
     (let this = \<lparr>sdk = Map.empty, network = network', apiURL = apiURL',
                  web3Provider = web3Provider', ethersProvider = ethersProvider'\<rparr>
      in if Option.is_none web3Provider' \<and> Option.is_none ethersProvider' then
           this\<lparr>sdk := constructPartialSDK impl
               \<lparr>cfg_fetcher = fetcher, cfg_contractCaller = None,
                cfg_apiURL = apiURL', cfg_network = network'\<rparr>
               [constructGetBalances, constructGetTokens, constructGetSpender,
                constructBuildTx, constructGetAdapters, constructGetRate]\<rparr>
         else
           let contractCaller =
                 (case ethersProvider' of
                    Some et \<Rightarrow> Some (constructEthersContractCaller et)
                  | None \<Rightarrow>
                      (case web3Provider' of
                         Some w3 \<Rightarrow> Some (constructWeb3ContractCaller w3)
                       | None \<Rightarrow> None))
           in case contractCaller of
                Some cc \<Rightarrow>
                  this\<lparr>sdk := constructSDK impl
                      \<lparr>cfg_fetcher = fetcher, cfg_contractCaller = Some cc,
                       cfg_apiURL = apiURL', cfg_network = network'\<rparr>\<rparr>
              | None \<Rightarrow> this)"

text \<open>
  \<^verbatim>\<open>new ParaSwap(network, apiURL, web3Provider, ethersProvider, axios, fetch)\<close>. An argument
  left out is \<open>None\<close>; \<^verbatim>\<open>network\<close> and \<^verbatim>\<open>apiURL\<close> have defaults (a primed name is the
  parameter, the plain name the field it initialises). \<^verbatim>\<open>assert\<close> throws an
  \<^verbatim>\<open>AssertionError\<close> with the given message when its condition is falsy.
\<close>

definition "constructor" ::
  "('ax, 'fe, 'w3, 'et, 'p, 's) Impl \<Rightarrow> int option \<Rightarrow> string option \<Rightarrow>
   'w3 option \<Rightarrow> 'et option \<Rightarrow> 'ax option \<Rightarrow> 'fe option \<Rightarrow>
   error + ('w3, 'et, 'p, 's) ParaSwap" where
  "constructor impl network' apiURL' web3Provider' ethersProvider' axios fetch =
     (let fetcher =
            (case axios of
               Some ax \<Rightarrow> Some (constructAxiosFetcher ax)
             | None \<Rightarrow>
                 (case fetch of
                    Some fe \<Rightarrow> Some (constructFetchFetcher fe)
                  | None \<Rightarrow> None))
      in case fetcher of
           None \<Rightarrow> Inl (AssertionError ''at least one fetcher is needed'')
         | Some fetcher \<Rightarrow>
             Inr (assemble impl fetcher
                    (case network' of None \<Rightarrow> 1 | Some n \<Rightarrow> n)
                    (case apiURL' of None \<Rightarrow> API_URL | Some u \<Rightarrow> u)
                    web3Provider' ethersProvider'))"


subsection \<open>Operation forwarding\<close>

text \<open>
  A public operation is \<^verbatim>\<open>async\<close>: its promise resolves with the delegate's payload or with
  an \<^verbatim>\<open>APIError\<close> (the union \<^verbatim>\<open>T | APIError\<close>; the two injections below are the two sides of
  the union and leave the value as it is), or it rejects with what was thrown (\<open>Inl\<close>).
\<close>

datatype 'p Answer = Payload 'p | Failure APIError

type_synonym ('p, 's) Outcome = "'s \<Rightarrow> (error + 'p Answer) \<times> 's"

text \<open>
  \<^verbatim>\<open>try { return await call } catch (e) { return this.handleAPIError(e) }\<close>. What
  \<^verbatim>\<open>handleAPIError\<close> itself throws is thrown out of the \<^verbatim>\<open>catch\<close> block.
\<close>

definition tryAwait :: "('p, 's) Async \<Rightarrow> ('p, 's) Outcome" where
  "tryAwait call s =
     (case call s of
        (Inr v, s') \<Rightarrow> (Inr (Payload v), s')
      | (Inl e, s') \<Rightarrow>
          (case handleAPIError e of
             Inl err \<Rightarrow> (Inl err, s')
           | Inr apiError \<Rightarrow> (Inr (Failure apiError), s')))"

definition setWeb3Provider ::
  "('w3, 'et, 'p, 's) ParaSwap \<Rightarrow> jsval \<Rightarrow> ('w3, 'et, 'p, 's) ParaSwap" where
  "setWeb3Provider this web3Provider' = this"

definition getTokens :: "('w3, 'et, 'p, 's) ParaSwap \<Rightarrow> ('p, 's) Outcome" where
  "getTokens this s =
     (case sdk this SDK_getTokens of
        None \<Rightarrow> (Inl (AssertionError ''sdk must be initialized with a fetcher''), s)
      | Some f \<Rightarrow> tryAwait (f NoArgs) s)"

definition getAdapters :: "('w3, 'et, 'p, 's) ParaSwap \<Rightarrow> ('p, 's) Outcome" where
  "getAdapters this s =
     (case sdk this SDK_getAdapters of
        None \<Rightarrow> (Inl (AssertionError ''sdk must be initialized with a fetcher''), s)
      | Some f \<Rightarrow> tryAwait (f (AdaptersArgs ''object'' None)) s)"

definition getRateByRoute ::
  "('w3, 'et, 'p, 's) ParaSwap \<Rightarrow> AddressOrSymbol list \<Rightarrow> PriceString \<Rightarrow> Address option \<Rightarrow>
   SwapSide option \<Rightarrow> jsval option \<Rightarrow> int option \<Rightarrow> int option \<Rightarrow> ('p, 's) Outcome" where
  "getRateByRoute this route amount userAddress side options srcDecimals destDecimals s =
     (case sdk this SDK_getRateByRoute of
        None \<Rightarrow> (Inl (AssertionError ''sdk must be initialized with a fetcher''), s)
      | Some f \<Rightarrow>
          if length route < 2 then
            (Inr (Failure \<lparr>message = JStr ''Invalid Route'', status = None, data = None\<rparr>), s)
          else
            tryAwait
              (f (RateByRouteArgs route amount userAddress
                    (case side of None \<Rightarrow> SELL | Some sd \<Rightarrow> sd)
                    options srcDecimals destDecimals)) s)"

definition getRate ::
  "('w3, 'et, 'p, 's) ParaSwap \<Rightarrow> AddressOrSymbol \<Rightarrow> AddressOrSymbol \<Rightarrow> PriceString \<Rightarrow>
   Address option \<Rightarrow> SwapSide option \<Rightarrow> jsval option \<Rightarrow> int option \<Rightarrow> int option \<Rightarrow>
   ('p, 's) Outcome" where
  "getRate this srcToken destToken amount userAddress side options srcDecimals destDecimals s =
     (case sdk this SDK_getRate of
        None \<Rightarrow> (Inl (AssertionError ''sdk must be initialized with a fetcher''), s)
      | Some f \<Rightarrow>
          tryAwait
            (f (RateArgs srcToken destToken amount userAddress
                  (case side of None \<Rightarrow> SELL | Some sd \<Rightarrow> sd)
                  (case options of None \<Rightarrow> JObj [] | Some opts \<Rightarrow> opts)
                  srcDecimals destDecimals)) s)"

definition buildTx ::
  "('w3, 'et, 'p, 's) ParaSwap \<Rightarrow> Address \<Rightarrow> Address \<Rightarrow> PriceString \<Rightarrow> PriceString \<Rightarrow>
   jsval \<Rightarrow> Address \<Rightarrow> string option \<Rightarrow> string option \<Rightarrow> int option \<Rightarrow> Address option \<Rightarrow>
   jsval option \<Rightarrow> int option \<Rightarrow> int option \<Rightarrow> string option \<Rightarrow> string option \<Rightarrow>
   ('p, 's) Outcome" where
  "buildTx this srcToken destToken srcAmount destAmount priceRoute userAddress partner
       partnerAddress partnerFeeBps receiver options srcDecimals destDecimals permit deadline s =
     (case sdk this SDK_buildTx of
        None \<Rightarrow> (Inl (AssertionError ''sdk must be initialized with a fetcher''), s)
      | Some f \<Rightarrow>
          tryAwait
            (f (BuildTxArgs srcToken destToken srcAmount destAmount priceRoute userAddress
                  partner partnerAddress partnerFeeBps receiver srcDecimals destDecimals
                  permit deadline
                  (case options of None \<Rightarrow> JObj [] | Some opts \<Rightarrow> opts))) s)"

definition getTokenTransferProxy ::
  "('w3, 'et, 'p, 's) ParaSwap \<Rightarrow> jsval \<Rightarrow> ('p, 's) Outcome" where
  "getTokenTransferProxy this provider s =
     (case sdk this SDK_getSpender of
        None \<Rightarrow> (Inl (AssertionError ''sdk must be initialized with a fetcher''), s)
      | Some f \<Rightarrow> tryAwait (f NoArgs) s)"

definition getAllowances ::
  "('w3, 'et, 'p, 's) ParaSwap \<Rightarrow> Address \<Rightarrow> Address list \<Rightarrow> ('p, 's) Outcome" where
  "getAllowances this userAddress tokenAddresses s =
     (case sdk this SDK_getAllowances of
        None \<Rightarrow> (Inl (AssertionError ''sdk must be initialized with a fetcher''), s)
      | Some f \<Rightarrow> tryAwait (f (AllowancesArgs userAddress tokenAddresses)) s)"

definition getAllowance ::
  "('w3, 'et, 'p, 's) ParaSwap \<Rightarrow> Address \<Rightarrow> Address \<Rightarrow> ('p, 's) Outcome" where
  "getAllowance this userAddress tokenAddress s =
     (case sdk this SDK_getAllowance of
        None \<Rightarrow> (Inl (AssertionError ''sdk must be initialized with a fetcher''), s)
      | Some f \<Rightarrow> tryAwait (f (AllowanceArgs userAddress tokenAddress)) s)"

definition approveTokenBulk ::
  "('w3, 'et, 'p, 's) ParaSwap \<Rightarrow> PriceString \<Rightarrow> Address \<Rightarrow> Address list \<Rightarrow> jsval \<Rightarrow>
   ('p, 's) Outcome" where
  "approveTokenBulk this amount userAddress tokenAddresses provider s =
     (case sdk this SDK_approveTokenBulk of
        None \<Rightarrow> (Inl (AssertionError ''sdk must be initialized with a provider''), s)
      | Some f \<Rightarrow> tryAwait (f (ApproveBulkArgs amount tokenAddresses)) s)"

definition approveToken ::
  "('w3, 'et, 'p, 's) ParaSwap \<Rightarrow> PriceString \<Rightarrow> Address \<Rightarrow> Address \<Rightarrow> jsval \<Rightarrow>
   jsval option \<Rightarrow> ('p, 's) Outcome" where
  "approveToken this amount userAddress tokenAddress provider sendOptions s =
     (case sdk this SDK_approveToken of
        None \<Rightarrow> (Inl (AssertionError ''sdk must be initialized with a provider''), s)
      | Some f \<Rightarrow> tryAwait (f (ApproveArgs amount tokenAddress)) s)"

definition getMarketNames :: "('w3, 'et, 'p, 's) ParaSwap \<Rightarrow> ('p, 's) Outcome" where
  "getMarketNames this s =
     (case sdk this SDK_getAdapters of
        None \<Rightarrow> (Inl (AssertionError ''sdk must be initialized with a fetcher''), s)
      | Some f \<Rightarrow> tryAwait (f (AdaptersArgs ''list'' (Some True))) s)"

definition getBalance ::
  "('w3, 'et, 'p, 's) ParaSwap \<Rightarrow> Address \<Rightarrow> AddressOrSymbol \<Rightarrow> ('p, 's) Outcome" where
  "getBalance this userAddress token s =
     (case sdk this SDK_getBalance of
        None \<Rightarrow> (Inl (AssertionError ''sdk must be initialized with a fetcher''), s)
      | Some f \<Rightarrow> tryAwait (f (BalanceArgs userAddress token)) s)"

definition getBalances ::
  "('w3, 'et, 'p, 's) ParaSwap \<Rightarrow> Address \<Rightarrow> ('p, 's) Outcome" where
  "getBalances this userAddress s =
     (case sdk this SDK_getBalances of
        None \<Rightarrow> (Inl (AssertionError ''sdk must be initialized with a fetcher''), s)
      | Some f \<Rightarrow> tryAwait (f (BalancesArgs userAddress)) s)"


subsection \<open>The public operations as one family\<close>

text \<open>
  A call of one of the thirteen asynchronous public operations, with its arguments, and the
  operation it runs. For each call: the member of \<^verbatim>\<open>this.sdk\<close> it asserts and then calls, the
  arguments it calls it with, and whether it returns before delegating (rate-by-route on a
  route with fewer than two entries).
\<close>

datatype Operation =
    Op_getTokens
  | Op_getAdapters
  | Op_getRateByRoute "AddressOrSymbol list" PriceString "Address option" "SwapSide option"
      "jsval option" "int option" "int option"
  | Op_getRate AddressOrSymbol AddressOrSymbol PriceString "Address option" "SwapSide option"
      "jsval option" "int option" "int option"
  | Op_buildTx Address Address PriceString PriceString jsval Address
      "string option" "string option" "int option" "Address option"
      "jsval option" "int option" "int option" "string option" "string option"
  | Op_getTokenTransferProxy jsval
  | Op_getAllowances Address "Address list"
  | Op_getAllowance Address Address
  | Op_approveTokenBulk PriceString Address "Address list" jsval
  | Op_approveToken PriceString Address Address jsval "jsval option"
  | Op_getMarketNames
  | Op_getBalance Address AddressOrSymbol
  | Op_getBalances Address

fun invoke :: "('w3, 'et, 'p, 's) ParaSwap \<Rightarrow> Operation \<Rightarrow> ('p, 's) Outcome" where
  "invoke this Op_getTokens = getTokens this"
| "invoke this Op_getAdapters = getAdapters this"
| "invoke this (Op_getRateByRoute r a u sd opts sdec ddec) =
     getRateByRoute this r a u sd opts sdec ddec"
| "invoke this (Op_getRate st dt a u sd opts sdec ddec) =
     getRate this st dt a u sd opts sdec ddec"
| "invoke this (Op_buildTx st dt sa da pr u pa paddr fee rc opts sdec ddec pm dl) =
     buildTx this st dt sa da pr u pa paddr fee rc opts sdec ddec pm dl"
| "invoke this (Op_getTokenTransferProxy pv) = getTokenTransferProxy this pv"
| "invoke this (Op_getAllowances u ts) = getAllowances this u ts"
| "invoke this (Op_getAllowance u t) = getAllowance this u t"
| "invoke this (Op_approveTokenBulk a u ts pv) = approveTokenBulk this a u ts pv"
| "invoke this (Op_approveToken a u t pv so) = approveToken this a u t pv so"
| "invoke this Op_getMarketNames = getMarketNames this"
| "invoke this (Op_getBalance u t) = getBalance this u t"
| "invoke this (Op_getBalances u) = getBalances this u"

fun capability :: "Operation \<Rightarrow> SDKMethod" where
  "capability Op_getTokens = SDK_getTokens"
| "capability Op_getAdapters = SDK_getAdapters"
| "capability (Op_getRateByRoute r a u sd opts sdec ddec) = SDK_getRateByRoute"
| "capability (Op_getRate st dt a u sd opts sdec ddec) = SDK_getRate"
| "capability (Op_buildTx st dt sa da pr u pa paddr fee rc opts sdec ddec pm dl) = SDK_buildTx"
| "capability (Op_getTokenTransferProxy pv) = SDK_getSpender"
| "capability (Op_getAllowances u ts) = SDK_getAllowances"
| "capability (Op_getAllowance u t) = SDK_getAllowance"
| "capability (Op_approveTokenBulk a u ts pv) = SDK_approveTokenBulk"
| "capability (Op_approveToken a u t pv so) = SDK_approveToken"
| "capability Op_getMarketNames = SDK_getAdapters"
| "capability (Op_getBalance u t) = SDK_getBalance"
| "capability (Op_getBalances u) = SDK_getBalances"

fun arguments :: "Operation \<Rightarrow> SDKArgs" where
  "arguments Op_getTokens = NoArgs"
| "arguments Op_getAdapters = AdaptersArgs ''object'' None"
| "arguments (Op_getRateByRoute r a u sd opts sdec ddec) =
     RateByRouteArgs r a u (case sd of None \<Rightarrow> SELL | Some x \<Rightarrow> x) opts sdec ddec"
| "arguments (Op_getRate st dt a u sd opts sdec ddec) =
     RateArgs st dt a u (case sd of None \<Rightarrow> SELL | Some x \<Rightarrow> x)
       (case opts of None \<Rightarrow> JObj [] | Some x \<Rightarrow> x) sdec ddec"
| "arguments (Op_buildTx st dt sa da pr u pa paddr fee rc opts sdec ddec pm dl) =
     BuildTxArgs st dt sa da pr u pa paddr fee rc sdec ddec pm dl
       (case opts of None \<Rightarrow> JObj [] | Some x \<Rightarrow> x)"
| "arguments (Op_getTokenTransferProxy pv) = NoArgs"
| "arguments (Op_getAllowances u ts) = AllowancesArgs u ts"
| "arguments (Op_getAllowance u t) = AllowanceArgs u t"
| "arguments (Op_approveTokenBulk a u ts pv) = ApproveBulkArgs a ts"
| "arguments (Op_approveToken a u t pv so) = ApproveArgs a t"
| "arguments Op_getMarketNames = AdaptersArgs ''list'' (Some True)"
| "arguments (Op_getBalance u t) = BalanceArgs u t"
| "arguments (Op_getBalances u) = BalancesArgs u"

fun returnsEarly :: "Operation \<Rightarrow> bool" where
  "returnsEarly (Op_getRateByRoute r a u sd opts sdec ddec) = (length r < 2)"
| "returnsEarly op = False"

fun assertion :: "Operation \<Rightarrow> string" where
  "assertion (Op_approveTokenBulk a u ts pv) = ''sdk must be initialized with a provider''"
| "assertion (Op_approveToken a u t pv so) = ''sdk must be initialized with a provider''"
| "assertion op = ''sdk must be initialized with a fetcher''"

text \<open>The calls of the read-only operations and of the allowance and approval operations.\<close>

fun needsProvider :: "Operation \<Rightarrow> bool" where
  "needsProvider (Op_getAllowances u ts) = True"
| "needsProvider (Op_getAllowance u t) = True"
| "needsProvider (Op_approveTokenBulk a u ts pv) = True"
| "needsProvider (Op_approveToken a u t pv so) = True"
| "needsProvider op = False"


subsection \<open>Example collaborators\<close>

text \<open>
  Three SDK behaviours used to run the facade on concrete inputs. The state of the outside
  world is the log of the delegated calls made so far; every member appends its own call to
  the log, and then resolves with a fixed payload, rejects with a fixed value, or resolves
  with the configuration it was built from.
\<close>

type_synonym CallLog = "(SDKMethod \<times> SDKArgs) list"

definition resolving :: "'p \<Rightarrow> ('ax, 'fe, 'w3, 'et, 'p, CallLog) Impl" where
  "resolving v config m args log = (Inr v, log @ [(m, args)])"

definition rejecting :: "jsval \<Rightarrow> ('ax, 'fe, 'w3, 'et, 'p, CallLog) Impl" where
  "rejecting e config m args log = (Inl e, log @ [(m, args)])"

definition reporting ::
  "('ax, 'fe, 'w3, 'et, ('ax, 'fe, 'w3, 'et) ConstructInput, CallLog) Impl" where
  "reporting config m args log = (Inr config, log @ [(m, args)])"

text \<open>
  Two failures of the HTTP client that carry a server response: one whose body is \<^verbatim>\<open>null\<close>,
  one whose body is an object without an \<^verbatim>\<open>error\<close> field.
\<close>

definition nullBodyFailure :: jsval where
  "nullBodyFailure =
     JErr ''Error'' ''Request failed with status code 500''
       [(''isAxiosError'', JBool True),
        (''response'', JObj [(''status'', JNum 500), (''data'', JNull)])]"

definition noErrorFieldFailure :: jsval where
  "noErrorFieldFailure =
     JErr ''Error'' ''Request failed with status code 403''
       [(''isAxiosError'', JBool True),
        (''response'',
         JObj [(''status'', JNum 403), (''data'', JObj [(''message'', JStr ''Forbidden'')])])]"


section \<open>Facts about the model\<close>

lemma dom_DEXS:
  "fst ` set DEXS = {''uniswap'', ''uniswapv2'', ''sushiswap'', ''defiswap'', ''linkswap''}"
  by (simp add: DEXS_def)

lemmas op_defs = getTokens_def getAdapters_def getRateByRoute_def getRate_def buildTx_def
  getTokenTransferProxy_def getAllowances_def getAllowance_def approveTokenBulk_def
  approveToken_def getMarketNames_def getBalance_def getBalances_def

text \<open>
  Every public operation has the same shape: assert the member, return early (rate-by-route
  only), otherwise delegate inside \<^verbatim>\<open>try\<close>/\<^verbatim>\<open>catch\<close>.
\<close>

lemma invoke_unfold:
  "invoke this op s =
     (case sdk this (capability op) of
        None \<Rightarrow> (Inl (AssertionError (assertion op)), s)
      | Some f \<Rightarrow>
          if returnsEarly op then
            (Inr (Failure \<lparr>message = JStr ''Invalid Route'', status = None, data = None\<rparr>), s)
          else tryAwait (f (arguments op)) s)"
  by (cases op) (simp_all add: op_defs split: option.split)

lemma partial_members:
  "constructPartialSDK impl cfg
     [constructGetBalances, constructGetTokens, constructGetSpender,
      constructBuildTx, constructGetAdapters, constructGetRate] m =
   (if m \<in> {SDK_getAllowances, SDK_getAllowance, SDK_approveTokenBulk, SDK_approveToken}
    then None else Some (impl cfg m))"
  by (cases m) (simp_all add: constructPartialSDK_def)

lemma sdk_assemble_readonly:
  "sdk (assemble impl fr n u None None) m =
     (if m \<in> {SDK_getAllowances, SDK_getAllowance, SDK_approveTokenBulk, SDK_approveToken}
      then None
      else Some (impl \<lparr>cfg_fetcher = fr, cfg_contractCaller = None,
                        cfg_apiURL = u, cfg_network = n\<rparr> m))"
  by (simp add: assemble_def partial_members)

lemma sdk_assemble_ethers:
  "sdk (assemble impl fr n u w (Some et)) =
     constructSDK impl
       \<lparr>cfg_fetcher = fr, cfg_contractCaller = Some (constructEthersContractCaller et),
        cfg_apiURL = u, cfg_network = n\<rparr>"
  by (simp add: assemble_def)

lemma sdk_assemble_web3:
  "sdk (assemble impl fr n u (Some w3) None) =
     constructSDK impl
       \<lparr>cfg_fetcher = fr, cfg_contractCaller = Some (constructWeb3ContractCaller w3),
        cfg_apiURL = u, cfg_network = n\<rparr>"
  by (simp add: assemble_def)

lemma sdk_assemble_members:
  "\<exists>cc. \<forall>m. sdk (assemble impl fr n u w e) m =
     (if cc = None \<and>
         m \<in> {SDK_getAllowances, SDK_getAllowance, SDK_approveTokenBulk, SDK_approveToken}
      then None
      else Some (impl \<lparr>cfg_fetcher = fr, cfg_contractCaller = cc,
                        cfg_apiURL = u, cfg_network = n\<rparr> m))"
proof (cases e)
  case (Some et)
  show ?thesis
    by (rule exI [of _ "Some (constructEthersContractCaller et)"])
       (simp add: Some sdk_assemble_ethers constructSDK_def)
next
  case None
  show ?thesis
  proof (cases w)
    case (Some w3)
    show ?thesis
      by (rule exI [of _ "Some (constructWeb3ContractCaller w3)"])
         (simp add: Some \<open>e = None\<close> sdk_assemble_web3 constructSDK_def)
  next
    case None
    show ?thesis
      by (rule exI [of _ None]) (simp add: None \<open>e = None\<close> sdk_assemble_readonly)
  qed
qed

lemma constructor_some:
  "ax \<noteq> None \<or> fe \<noteq> None \<Longrightarrow>
   \<exists>fr. constructor impl n u w e ax fe =
     Inr (assemble impl fr (case n of None \<Rightarrow> 1 | Some x \<Rightarrow> x)
            (case u of None \<Rightarrow> API_URL | Some x \<Rightarrow> x) w e)"
  by (cases ax; cases fe) (auto simp: constructor_def)

lemma constructor_Inr:
  "constructor impl n u w e ax fe = Inr this \<Longrightarrow> ax \<noteq> None \<or> fe \<noteq> None"
  by (auto simp: constructor_def split: option.splits)

lemma capability_readonly:
  "\<not> needsProvider op \<Longrightarrow>
   capability op \<notin> {SDK_getAllowances, SDK_getAllowance, SDK_approveTokenBulk, SDK_approveToken}"
  by (cases op) simp_all

lemma capability_provider:
  "needsProvider op \<Longrightarrow>
   capability op \<in> {SDK_getAllowances, SDK_getAllowance, SDK_approveTokenBulk, SDK_approveToken}"
  by (cases op) simp_all

text \<open>Every instance the constructor returns holds the rate-by-route member.\<close>

lemma rate_capability_constructed:
  assumes "constructor impl n u w e ax fe = Inr this"
  shows "\<exists>cfg. sdk this SDK_getRateByRoute = Some (impl cfg SDK_getRateByRoute)"
proof -
  from assms have "ax \<noteq> None \<or> fe \<noteq> None"
    by (rule constructor_Inr)
  from constructor_some [OF this, of impl n u w e] assms
  obtain fr where eq: "this = assemble impl fr (case n of None \<Rightarrow> 1 | Some x \<Rightarrow> x)
      (case u of None \<Rightarrow> API_URL | Some x \<Rightarrow> x) w e"
    by auto
  show ?thesis
  proof (cases e)
    case (Some et)
    then show ?thesis by (auto simp: eq sdk_assemble_ethers constructSDK_def)
  next
    case None
    then show ?thesis
      by (cases w) (auto simp: eq sdk_assemble_web3 sdk_assemble_readonly constructSDK_def)
  qed
qed

lemma provider_operation_delegates:
  assumes "\<And>m. sdk this m = Some (g m)" and "needsProvider op"
  shows "\<exists>f. sdk this (capability op) = Some f \<and>
           invoke this op s = tryAwait (f (arguments op)) s"
proof -
  from assms(2) have "\<not> returnsEarly op" by (cases op) simp_all
  then show ?thesis by (simp add: invoke_unfold assms(1))
qed


subsection \<open>The three branches of the error normalisation\<close>

lemma handleAPIError_unknown:
  "\<not> isAxiosError e \<Longrightarrow> toString e = Inr str \<Longrightarrow>
   handleAPIError e =
     Inr \<lparr>message = JStr (''Unknown error: '' @ str), status = None, data = None\<rparr>"
  by (simp add: handleAPIError_def)

lemma handleAPIError_unknown_throws:
  "\<not> isAxiosError e \<Longrightarrow> toString e = Inl err \<Longrightarrow> handleAPIError e = Inl err"
  by (simp add: handleAPIError_def)

lemma handleAPIError_no_response:
  "isAxiosError e \<Longrightarrow> \<not> truthy (get e ''response'') \<Longrightarrow>
   handleAPIError e = Inr \<lparr>message = get e ''message'', status = None, data = None\<rparr>"
  by (simp add: handleAPIError_def)

lemma handleAPIError_response:
  "isAxiosError e \<Longrightarrow> truthy (get e ''response'') \<Longrightarrow>
   \<not> nullish (get (get e ''response'') ''data'') \<Longrightarrow>
   handleAPIError e =
     Inr \<lparr>message = get (get (get e ''response'') ''data'') ''error'',
          status = Some (get (get e ''response'') ''status''),
          data = Some (get (get e ''response'') ''data'')\<rparr>"
  by (simp add: handleAPIError_def member_def Let_def)

lemma handleAPIError_response_nullish:
  "isAxiosError e \<Longrightarrow> truthy (get e ''response'') \<Longrightarrow>
   nullish (get (get e ''response'') ''data'') \<Longrightarrow>
   handleAPIError e = Inl (TypeError ''Cannot read properties of null or undefined: error'')"
  by (simp add: handleAPIError_def member_def Let_def)

text \<open>The examples of the spec's testable properties.\<close>

lemma handleAPIError_examples:
  "handleAPIError
     (JErr ''Error'' ''Request failed with status code 400''
        [(''isAxiosError'', JBool True),
         (''response'',
          JObj [(''status'', JNum 400), (''data'', JObj [(''error'', JStr ''bad request'')])])]) =
   Inr \<lparr>message = JStr ''bad request'', status = Some (JNum 400),
        data = Some (JObj [(''error'', JStr ''bad request'')])\<rparr>"
  "handleAPIError (JErr ''Error'' ''timeout'' [(''isAxiosError'', JBool True)]) =
   Inr \<lparr>message = JStr ''timeout'', status = None, data = None\<rparr>"
  "handleAPIError (JErr ''Error'' ''Invalid DEX list'' []) =
   Inr \<lparr>message = JStr ''Unknown error: Error: Invalid DEX list'', status = None, data = None\<rparr>"
  "handleAPIError (JStr ''boom'') =
   Inr \<lparr>message = JStr ''Unknown error: boom'', status = None, data = None\<rparr>"
  by (simp_all add: handleAPIError_def isAxiosError_def member_def)


section \<open>The claims\<close>

text \<open>
  Claim C1. When the delegated call of a public operation rejects with \<open>e\<close>, the operation
  returns the normalised error given by a three-way split: not a transport error,
  a transport error without a response, a transport error with a response. The branches
  are the lemmas above: the first on a value that converts to a string, the second, and
  the third on a body that is neither \<^verbatim>\<open>null\<close> nor \<^verbatim>\<open>undefined\<close>. On a transport error whose response body is \<^verbatim>\<open>null\<close> the third branch
  reads \<^verbatim>\<open>data.error\<close> of \<^verbatim>\<open>null\<close>: \<^verbatim>\<open>handleAPIError\<close> throws a \<^verbatim>\<open>TypeError\<close>, and the operation
  (here the token listing of a read-only instance, after its one delegated call) rejects
  with it instead of returning \<^verbatim>\<open>{ status, message, data }\<close>.
\<close>

theorem null_body_throws:
  "isAxiosError nullBodyFailure \<and>
   get nullBodyFailure ''response'' = JObj [(''status'', JNum 500), (''data'', JNull)] \<and>
   handleAPIError nullBodyFailure =
     Inl (TypeError ''Cannot read properties of null or undefined: error'') \<and>
   (\<exists>this. constructor (rejecting nullBodyFailure) None None (None :: unit option)
              (None :: unit option) (Some ()) (None :: unit option) = Inr this \<and>
      invoke this Op_getTokens [] =
        (Inl (TypeError ''Cannot read properties of null or undefined: error'') ::
           error + unit Answer,
         [(SDK_getTokens, NoArgs)]))"
  by (simp add: nullBodyFailure_def isAxiosError_def handleAPIError_def member_def
      constructor_def sdk_assemble_readonly getTokens_def tryAwait_def rejecting_def)

text \<open>
  Claim C2. Construction resolves one transport. When the promise-based HTTP client is
  supplied, construction succeeds, whether or not a fetch-like function is supplied too (the
  result is the same without it), and the members of the SDK are built from the fetcher of
  that client: the token listing member is present and is such a member, and every member
  is either such a member or, on an instance without a contract-calling backend, one of the
  four missing allowance and approval members. Otherwise, when the fetch-like function is
  supplied, the same holds with the fetcher of that function. With neither, construction
  fails with \<^verbatim>\<open>at least one fetcher is needed\<close>.
\<close>

theorem constructor_transport:
  "(\<exists>this cc.
      constructor impl n u w e (Some ax) fe = Inr this \<and>
      sdk this SDK_getTokens =
        Some (impl \<lparr>cfg_fetcher = constructAxiosFetcher ax, cfg_contractCaller = cc,
                     cfg_apiURL = (case u of None \<Rightarrow> API_URL | Some x \<Rightarrow> x),
                     cfg_network = (case n of None \<Rightarrow> 1 | Some x \<Rightarrow> x)\<rparr> SDK_getTokens) \<and>
      (\<forall>m. sdk this m =
         (if cc = None \<and>
             m \<in> {SDK_getAllowances, SDK_getAllowance, SDK_approveTokenBulk, SDK_approveToken}
          then None
          else Some (impl \<lparr>cfg_fetcher = constructAxiosFetcher ax, cfg_contractCaller = cc,
                            cfg_apiURL = (case u of None \<Rightarrow> API_URL | Some x \<Rightarrow> x),
                            cfg_network = (case n of None \<Rightarrow> 1 | Some x \<Rightarrow> x)\<rparr> m)))) \<and>
   constructor impl n u w e (Some ax) fe = constructor impl n u w e (Some ax) None \<and>
   (\<exists>this cc.
      constructor impl n u w e None (Some f) = Inr this \<and>
      sdk this SDK_getTokens =
        Some (impl \<lparr>cfg_fetcher = constructFetchFetcher f, cfg_contractCaller = cc,
                     cfg_apiURL = (case u of None \<Rightarrow> API_URL | Some x \<Rightarrow> x),
                     cfg_network = (case n of None \<Rightarrow> 1 | Some x \<Rightarrow> x)\<rparr> SDK_getTokens) \<and>
      (\<forall>m. sdk this m =
         (if cc = None \<and>
             m \<in> {SDK_getAllowances, SDK_getAllowance, SDK_approveTokenBulk, SDK_approveToken}
          then None
          else Some (impl \<lparr>cfg_fetcher = constructFetchFetcher f, cfg_contractCaller = cc,
                            cfg_apiURL = (case u of None \<Rightarrow> API_URL | Some x \<Rightarrow> x),
                            cfg_network = (case n of None \<Rightarrow> 1 | Some x \<Rightarrow> x)\<rparr> m)))) \<and>
   constructor impl n u w e None None = Inl (AssertionError ''at least one fetcher is needed'')"
proof -
  let ?n = "case n of None \<Rightarrow> 1 | Some x \<Rightarrow> x"
  let ?u = "case u of None \<Rightarrow> API_URL | Some x \<Rightarrow> x"
  have built: "\<exists>this cc. r = Inr this \<and>
      sdk this SDK_getTokens =
        Some (impl \<lparr>cfg_fetcher = fr, cfg_contractCaller = cc,
                     cfg_apiURL = ?u, cfg_network = ?n\<rparr> SDK_getTokens) \<and>
      (\<forall>m. sdk this m =
         (if cc = None \<and>
             m \<in> {SDK_getAllowances, SDK_getAllowance, SDK_approveTokenBulk, SDK_approveToken}
          then None
          else Some (impl \<lparr>cfg_fetcher = fr, cfg_contractCaller = cc,
                            cfg_apiURL = ?u, cfg_network = ?n\<rparr> m)))"
    if r: "r = Inr (assemble impl fr ?n ?u w e)" for r fr
  proof -
    from sdk_assemble_members [of impl fr ?n ?u w e]
    obtain cc where m: "\<And>m. sdk (assemble impl fr ?n ?u w e) m =
       (if cc = None \<and>
           m \<in> {SDK_getAllowances, SDK_getAllowance, SDK_approveTokenBulk, SDK_approveToken}
        then None
        else Some (impl \<lparr>cfg_fetcher = fr, cfg_contractCaller = cc,
                          cfg_apiURL = ?u, cfg_network = ?n\<rparr> m))"
      by blast
    have t: "sdk (assemble impl fr ?n ?u w e) SDK_getTokens =
        Some (impl \<lparr>cfg_fetcher = fr, cfg_contractCaller = cc,
                     cfg_apiURL = ?u, cfg_network = ?n\<rparr> SDK_getTokens)"
      by (simp add: m)
    from r t m show ?thesis by blast
  qed
  have a: "constructor impl n u w e (Some ax) fe =
      Inr (assemble impl (constructAxiosFetcher ax) ?n ?u w e)"
    by (simp add: constructor_def)
  have a': "constructor impl n u w e (Some ax) fe = constructor impl n u w e (Some ax) None"
    by (simp add: constructor_def)
  have b: "constructor impl n u w e None (Some f) =
      Inr (assemble impl (constructFetchFetcher f) ?n ?u w e)"
    by (simp add: constructor_def)
  have c: "constructor impl n u w e None None =
      Inl (AssertionError ''at least one fetcher is needed'')"
    by (simp add: constructor_def)
  from built [OF a] a' built [OF b] c show ?thesis by (intro conjI)
qed

theorem constructor_transport_witness:
  "(\<exists>this. constructor reporting None None (None :: unit option) (None :: unit option)
              (Some ()) (Some ()) = Inr this \<and>
      invoke this Op_getTokens [] =
        (Inr (Payload \<lparr>cfg_fetcher = constructAxiosFetcher (), cfg_contractCaller = None,
                       cfg_apiURL = API_URL, cfg_network = 1\<rparr>),
         [(SDK_getTokens, NoArgs)])) \<and>
   (\<exists>this. constructor reporting None None (None :: unit option) (None :: unit option)
              (None :: unit option) (Some ()) = Inr this \<and>
      invoke this Op_getTokens [] =
        (Inr (Payload \<lparr>cfg_fetcher = constructFetchFetcher (), cfg_contractCaller = None,
                       cfg_apiURL = API_URL, cfg_network = 1\<rparr>),
         [(SDK_getTokens, NoArgs)]))"
proof -
  let ?P = "{SDK_getAllowances, SDK_getAllowance, SDK_approveTokenBulk, SDK_approveToken}"
  from constructor_transport [of reporting None None None None "()" "Some ()" "()"]
  obtain a ca b cb where
    ca: "constructor reporting None None (None :: unit option) (None :: unit option)
           (Some ()) (Some ()) = Inr a"
    and ta: "sdk a SDK_getTokens =
        Some (reporting \<lparr>cfg_fetcher = constructAxiosFetcher (), cfg_contractCaller = ca,
                cfg_apiURL = (case None of None \<Rightarrow> API_URL | Some x \<Rightarrow> x),
                cfg_network = (case None of None \<Rightarrow> 1 | Some x \<Rightarrow> x)\<rparr> SDK_getTokens)"
    and ma: "\<forall>m. sdk a m =
        (if ca = None \<and> m \<in> ?P then None
         else Some (reporting \<lparr>cfg_fetcher = constructAxiosFetcher (), cfg_contractCaller = ca,
                cfg_apiURL = (case None of None \<Rightarrow> API_URL | Some x \<Rightarrow> x),
                cfg_network = (case None of None \<Rightarrow> 1 | Some x \<Rightarrow> x)\<rparr> m))"
    and cb: "constructor reporting None None (None :: unit option) (None :: unit option)
           (None :: unit option) (Some ()) = Inr b"
    and tb: "sdk b SDK_getTokens =
        Some (reporting \<lparr>cfg_fetcher = constructFetchFetcher (), cfg_contractCaller = cb,
                cfg_apiURL = (case None of None \<Rightarrow> API_URL | Some x \<Rightarrow> x),
                cfg_network = (case None of None \<Rightarrow> 1 | Some x \<Rightarrow> x)\<rparr> SDK_getTokens)"
    and mb: "\<forall>m. sdk b m =
        (if cb = None \<and> m \<in> ?P then None
         else Some (reporting \<lparr>cfg_fetcher = constructFetchFetcher (), cfg_contractCaller = cb,
                cfg_apiURL = (case None of None \<Rightarrow> API_URL | Some x \<Rightarrow> x),
                cfg_network = (case None of None \<Rightarrow> 1 | Some x \<Rightarrow> x)\<rparr> m))"
    by blast
  from ca have "sdk a SDK_approveToken = None"
    by (auto simp: constructor_def sdk_assemble_readonly)
  with ma [rule_format, of SDK_approveToken] have na: "ca = None"
    by (simp split: if_splits)
  from cb have "sdk b SDK_approveToken = None"
    by (auto simp: constructor_def sdk_assemble_readonly)
  with mb [rule_format, of SDK_approveToken] have nb: "cb = None"
    by (simp split: if_splits)
  have ra: "invoke a Op_getTokens [] =
        (Inr (Payload \<lparr>cfg_fetcher = constructAxiosFetcher (), cfg_contractCaller = None,
                       cfg_apiURL = API_URL, cfg_network = 1\<rparr>),
         [(SDK_getTokens, NoArgs)])"
    using ta by (simp add: na getTokens_def tryAwait_def reporting_def)
  have rb: "invoke b Op_getTokens [] =
        (Inr (Payload \<lparr>cfg_fetcher = constructFetchFetcher (), cfg_contractCaller = None,
                       cfg_apiURL = API_URL, cfg_network = 1\<rparr>),
         [(SDK_getTokens, NoArgs)])"
    using tb by (simp add: nb getTokens_def tryAwait_def reporting_def)
  from ca ra cb rb show ?thesis by blast
qed

text \<open>
  Claim C3. A construction that supplies a transport and neither a wallet provider nor a
  chain provider succeeds, and on the resulting instance: every read-only operation (token
  listing, adapters and market names, both rate queries, transaction building, spender
  lookup, both balance queries) finds its member and goes on to its local check and its
  delegated call; every allowance and approval operation finds its member missing and
  rejects with the assertion error, without a delegated call, and that error is thrown, not
  returned as a normalised error.
\<close>

theorem read_only_capabilities:
  assumes "ax \<noteq> None \<or> fe \<noteq> None"
  shows "\<exists>this. constructor impl n u None None ax fe = Inr this \<and>
     (\<forall>op s. \<not> needsProvider op \<longrightarrow>
        (\<exists>f. sdk this (capability op) = Some f \<and>
           invoke this op s =
             (if returnsEarly op then
                (Inr (Failure \<lparr>message = JStr ''Invalid Route'', status = None, data = None\<rparr>), s)
              else tryAwait (f (arguments op)) s))) \<and>
     (\<forall>op s. needsProvider op \<longrightarrow>
        sdk this (capability op) = None \<and>
        invoke this op s = (Inl (AssertionError (assertion op)), s))"
proof -
  from constructor_some [OF assms, of impl n u None None]
  obtain fr where c: "constructor impl n u None None ax fe =
      Inr (assemble impl fr (case n of None \<Rightarrow> 1 | Some x \<Rightarrow> x)
             (case u of None \<Rightarrow> API_URL | Some x \<Rightarrow> x) None None)"
    by blast
  let ?I = "assemble impl fr (case n of None \<Rightarrow> 1 | Some x \<Rightarrow> x)
             (case u of None \<Rightarrow> API_URL | Some x \<Rightarrow> x) None None"
  have ro: "\<exists>f. sdk ?I (capability op) = Some f \<and>
           invoke ?I op s =
             (if returnsEarly op then
                (Inr (Failure \<lparr>message = JStr ''Invalid Route'', status = None, data = None\<rparr>), s)
              else tryAwait (f (arguments op)) s)" if "\<not> needsProvider op" for op s
    using capability_readonly [OF that]
    by (simp add: invoke_unfold sdk_assemble_readonly)
  have pr: "sdk ?I (capability op) = None \<and>
        invoke ?I op s = (Inl (AssertionError (assertion op)), s)" if "needsProvider op" for op s
    using capability_provider [OF that]
    by (simp add: invoke_unfold sdk_assemble_readonly)
  from c ro pr show ?thesis by blast
qed

theorem read_only_capabilities_witness:
  "\<exists>this. constructor (resolving ''ok'') None None (None :: unit option) (None :: unit option)
              (Some ()) (None :: unit option) = Inr this \<and>
     invoke this (Op_getBalance ''0xUser'' ''ETH'') [] =
       (Inr (Payload ''ok''), [(SDK_getBalance, BalanceArgs ''0xUser'' ''ETH'')]) \<and>
     invoke this (Op_getAllowance ''0xUser'' ''0xToken'') [] =
       (Inl (AssertionError ''sdk must be initialized with a fetcher''), []) \<and>
     invoke this (Op_approveToken ''1000'' ''0xUser'' ''0xToken'' JUndefined None) [] =
       (Inl (AssertionError ''sdk must be initialized with a provider''), [])"
proof -
  have t: "Some () \<noteq> None \<or> (None :: unit option) \<noteq> None" by simp
  from read_only_capabilities [OF t, of "resolving ''ok''" None None]
  obtain this where c: "constructor (resolving ''ok'') None None (None :: unit option)
        (None :: unit option) (Some ()) (None :: unit option) = Inr this"
    and ro: "\<And>op s. \<not> needsProvider op \<Longrightarrow>
        (\<exists>f. sdk this (capability op) = Some f \<and>
           invoke this op s =
             (if returnsEarly op then
                (Inr (Failure \<lparr>message = JStr ''Invalid Route'', status = None, data = None\<rparr>), s)
              else tryAwait (f (arguments op)) s))"
    and pr: "\<And>op s. needsProvider op \<Longrightarrow>
        sdk this (capability op) = None \<and>
        invoke this op s = (Inl (AssertionError (assertion op)), s)"
    by blast
  from c have eq: "this = assemble (resolving ''ok'')
      (constructAxiosFetcher () :: (unit, unit) Fetcher) 1 API_URL None None"
    by (simp add: constructor_def)
  have "invoke this (Op_getBalance ''0xUser'' ''ETH'') [] =
       (Inr (Payload ''ok''), [(SDK_getBalance, BalanceArgs ''0xUser'' ''ETH'')])"
    using ro [of "Op_getBalance ''0xUser'' ''ETH''" "[]"]
    by (simp add: eq sdk_assemble_readonly tryAwait_def resolving_def)
  moreover have "invoke this (Op_getAllowance ''0xUser'' ''0xToken'') [] =
       (Inl (AssertionError ''sdk must be initialized with a fetcher''), [])"
    using pr [of "Op_getAllowance ''0xUser'' ''0xToken''" "[]"] by simp
  moreover have "invoke this (Op_approveToken ''1000'' ''0xUser'' ''0xToken'' JUndefined None) [] =
       (Inl (AssertionError ''sdk must be initialized with a provider''), [])"
    using pr [of "Op_approveToken ''1000'' ''0xUser'' ''0xToken'' JUndefined None" "[]"] by simp
  ultimately show ?thesis using c by blast
qed

text \<open>
  Claim C4. A construction that supplies a transport and at least one of the wallet provider
  and the chain provider succeeds, and the resulting SDK holds every member, the allowance
  and approval members included, all built from one contract-calling backend: that of the
  chain provider when it is supplied, otherwise that of the wallet provider. The allowance
  and approval operations then find their member and delegate.
\<close>

theorem full_capabilities:
  assumes "ax \<noteq> None \<or> fe \<noteq> None" and "w \<noteq> None \<or> e \<noteq> None"
  shows "\<exists>this fr cc. constructor impl n u w e ax fe = Inr this \<and>
     (\<forall>et. e = Some et \<longrightarrow> cc = constructEthersContractCaller et) \<and>
     (\<forall>w3. e = None \<and> w = Some w3 \<longrightarrow> cc = constructWeb3ContractCaller w3) \<and>
     (\<forall>m. sdk this m =
        Some (impl \<lparr>cfg_fetcher = fr, cfg_contractCaller = Some cc,
                    cfg_apiURL = (case u of None \<Rightarrow> API_URL | Some x \<Rightarrow> x),
                    cfg_network = (case n of None \<Rightarrow> 1 | Some x \<Rightarrow> x)\<rparr> m)) \<and>
     (\<forall>op s. needsProvider op \<longrightarrow>
        (\<exists>f. sdk this (capability op) = Some f \<and>
           invoke this op s = tryAwait (f (arguments op)) s))"
proof -
  let ?n = "case n of None \<Rightarrow> 1 | Some x \<Rightarrow> x"
  let ?u = "case u of None \<Rightarrow> API_URL | Some x \<Rightarrow> x"
  from constructor_some [OF assms(1), of impl n u w e]
  obtain fr where c: "constructor impl n u w e ax fe = Inr (assemble impl fr ?n ?u w e)"
    by blast
  let ?I = "assemble impl fr ?n ?u w e"
  let ?cfg = "\<lambda>cc. \<lparr>cfg_fetcher = fr, cfg_contractCaller = Some cc,
                    cfg_apiURL = ?u, cfg_network = ?n\<rparr>"
  have "\<exists>cc. (\<forall>et. e = Some et \<longrightarrow> cc = constructEthersContractCaller et) \<and>
     (\<forall>w3. e = None \<and> w = Some w3 \<longrightarrow> cc = constructWeb3ContractCaller w3) \<and>
     (\<forall>m. sdk ?I m = Some (impl (?cfg cc) m))"
  proof (cases e)
    case (Some et)
    then show ?thesis by (simp add: sdk_assemble_ethers constructSDK_def)
  next
    case None
    with assms(2) obtain w3 where "w = Some w3" by auto
    with None show ?thesis by (simp add: sdk_assemble_web3 constructSDK_def)
  qed
  then obtain cc where e1: "\<forall>et. e = Some et \<longrightarrow> cc = constructEthersContractCaller et"
    and e2: "\<forall>w3. e = None \<and> w = Some w3 \<longrightarrow> cc = constructWeb3ContractCaller w3"
    and m: "\<And>m. sdk ?I m = Some (impl (?cfg cc) m)"
    by blast
  have d: "\<forall>op s. needsProvider op \<longrightarrow>
        (\<exists>f. sdk ?I (capability op) = Some f \<and>
           invoke ?I op s = tryAwait (f (arguments op)) s)"
    using provider_operation_delegates [of ?I "impl (?cfg cc)", OF m] by blast
  from c e1 e2 m d show ?thesis by blast
qed

theorem full_capabilities_witness:
  "\<exists>this. constructor reporting None None (Some ()) (Some ()) (Some ()) (Some ()) = Inr this \<and>
     invoke this (Op_approveToken ''1000'' ''0xUser'' ''0xToken'' JUndefined None) [] =
       (Inr (Payload \<lparr>cfg_fetcher = constructAxiosFetcher (),
                      cfg_contractCaller = Some (constructEthersContractCaller ()),
                      cfg_apiURL = API_URL, cfg_network = 1\<rparr>),
        [(SDK_approveToken, ApproveArgs ''1000'' ''0xToken'')])"
proof -
  have t: "Some () \<noteq> None \<or> Some () \<noteq> None" by simp
  from full_capabilities [OF t t, of reporting None None]
  obtain this fr cc where
    c: "constructor reporting None None (Some ()) (Some ()) (Some ()) (Some ()) = Inr this"
    and d: "\<And>op s. needsProvider op \<Longrightarrow>
        (\<exists>f. sdk this (capability op) = Some f \<and>
           invoke this op s = tryAwait (f (arguments op)) s)"
    by blast
  from c have eq: "this = assemble reporting (constructAxiosFetcher ()) 1 API_URL (Some ()) (Some ())"
    by (simp add: constructor_def)
  have "invoke this (Op_approveToken ''1000'' ''0xUser'' ''0xToken'' JUndefined None) [] =
       (Inr (Payload \<lparr>cfg_fetcher = constructAxiosFetcher (),
                      cfg_contractCaller = Some (constructEthersContractCaller ()),
                      cfg_apiURL = API_URL, cfg_network = 1\<rparr>),
        [(SDK_approveToken, ApproveArgs ''1000'' ''0xToken'')])"
    using d [of "Op_approveToken ''1000'' ''0xUser'' ''0xToken'' JUndefined None" "[]"]
    by (simp add: eq sdk_assemble_ethers constructSDK_def tryAwait_def reporting_def)
  with c show ?thesis by blast
qed


text \<open>
  Claim C5. On every instance the constructor returns, the rate-by-route operation called
  with a route of fewer than two entries returns \<^verbatim>\<open>{ message: "Invalid Route" }\<close> and leaves
  the outside world as it was, whatever the members of the SDK would do if called: no
  delegated call and no transport request is made. With two entries or more the local check
  passes and the operation is its delegated call inside \<^verbatim>\<open>try\<close>/\<^verbatim>\<open>catch\<close>.
\<close>

theorem rate_by_route_short:
  assumes "constructor impl n u w e ax fe = Inr this"
  shows "(length route < 2 \<longrightarrow>
            getRateByRoute this route amount ua sd opts sdec ddec s =
              (Inr (Failure \<lparr>message = JStr ''Invalid Route'', status = None, data = None\<rparr>), s)) \<and>
         (2 \<le> length route \<longrightarrow>
            (\<exists>f. sdk this SDK_getRateByRoute = Some f \<and>
              getRateByRoute this route amount ua sd opts sdec ddec s =
                tryAwait (f (RateByRouteArgs route amount ua
                   (case sd of None \<Rightarrow> SELL | Some x \<Rightarrow> x) opts sdec ddec)) s))"
proof -
  from rate_capability_constructed [OF assms]
  obtain f where "sdk this SDK_getRateByRoute = Some f" by auto
  then show ?thesis by (simp add: getRateByRoute_def)
qed

theorem rate_by_route_short_witness:
  "\<exists>this. constructor (resolving ''rate'') None None (None :: unit option) (None :: unit option)
              (Some ()) (None :: unit option) = Inr this \<and>
     length [''ETH''] < 2 \<and>
     getRateByRoute this [''ETH''] ''1000'' None None None None None [] =
       (Inr (Failure \<lparr>message = JStr ''Invalid Route'', status = None, data = None\<rparr>), []) \<and>
     2 \<le> length [''ETH'', ''DAI''] \<and>
     getRateByRoute this [''ETH'', ''DAI''] ''1000'' None None None None None [] =
       (Inr (Payload ''rate''),
        [(SDK_getRateByRoute, RateByRouteArgs [''ETH'', ''DAI''] ''1000'' None SELL None None None)])"
proof -
  let ?I = "assemble (resolving ''rate'') (constructAxiosFetcher () :: (unit, unit) Fetcher)
              1 API_URL (None :: unit option) (None :: unit option)"
  have c: "constructor (resolving ''rate'') None None (None :: unit option) (None :: unit option)
              (Some ()) (None :: unit option) = Inr ?I"
    by (simp add: constructor_def)
  from rate_by_route_short [OF c, of "[''ETH'']" "''1000''" None None None None None "[]"]
  have short: "getRateByRoute ?I [''ETH''] ''1000'' None None None None None [] =
       (Inr (Failure \<lparr>message = JStr ''Invalid Route'', status = None, data = None\<rparr>), [])"
    by simp
  from rate_by_route_short [OF c, of "[''ETH'', ''DAI'']" "''1000''" None None None None None "[]"]
  have long: "getRateByRoute ?I [''ETH'', ''DAI''] ''1000'' None None None None None [] =
       (Inr (Payload ''rate''),
        [(SDK_getRateByRoute, RateByRouteArgs [''ETH'', ''DAI''] ''1000'' None SELL None None None)])"
    by (simp add: sdk_assemble_readonly tryAwait_def resolving_def)
  from c short long show ?thesis by simp
qed

text \<open>
  Claim C6, as stated: the registry maps \<^verbatim>\<open>uniswap\<close> to one adapter and \<^verbatim>\<open>uniswapv2\<close>,
  \<^verbatim>\<open>sushiswap\<close>, \<^verbatim>\<open>defiswap\<close> and \<^verbatim>\<open>linkswap\<close> to one other adapter, and the lookup of any
  other identifier is not-found. The last part fails: \<^verbatim>\<open>constructor\<close> is none of the five,
  and the read \<^verbatim>\<open>DEXS["constructor"]\<close> finds the member inherited from \<^verbatim>\<open>Object.prototype\<close>.
\<close>

theorem registry_inherited_counterexample:
  "''constructor'' \<notin> {''uniswap'', ''uniswapv2'', ''sushiswap'', ''defiswap'', ''linkswap''} \<and>
   lookup ''constructor'' = Some (Inherited ''constructor'') \<and>
   lookup ''constructor'' \<noteq> None"
  by (simp add: lookup_def DEXS_def objectPrototype_def)

text \<open>
  Claim C6, amended: the five lookups are as stated, the five identifiers are the only own
  entries of the registry, and the lookup of any other identifier is not-found unless the
  identifier names a member of \<^verbatim>\<open>Object.prototype\<close>, in which case it finds that inherited
  member.
\<close>

theorem registry_entries:
  "lookup ''uniswap'' = Some (Registered UniswapV1) \<and>
   lookup ''uniswapv2'' = Some (Registered UniswapV2) \<and>
   lookup ''sushiswap'' = Some (Registered UniswapV2) \<and>
   lookup ''defiswap'' = Some (Registered UniswapV2) \<and>
   lookup ''linkswap'' = Some (Registered UniswapV2) \<and>
   lookup ''uniswap'' \<noteq> lookup ''uniswapv2'' \<and>
   (\<forall>dex. dex \<notin> {''uniswap'', ''uniswapv2'', ''sushiswap'', ''defiswap'', ''linkswap''} \<longrightarrow>
      map_of DEXS dex = None \<and>
      lookup dex = (if dex \<in> set objectPrototype then Some (Inherited dex) else None))"
proof -
  have inside:
    "lookup ''uniswap'' = Some (Registered UniswapV1) \<and>
     lookup ''uniswapv2'' = Some (Registered UniswapV2) \<and>
     lookup ''sushiswap'' = Some (Registered UniswapV2) \<and>
     lookup ''defiswap'' = Some (Registered UniswapV2) \<and>
     lookup ''linkswap'' = Some (Registered UniswapV2) \<and>
     lookup ''uniswap'' \<noteq> lookup ''uniswapv2''"
    by (simp add: lookup_def DEXS_def)
  have own: "map_of DEXS dex = None"
    if "dex \<notin> {''uniswap'', ''uniswapv2'', ''sushiswap'', ''defiswap'', ''linkswap''}" for dex
    using that unfolding map_of_eq_None_iff dom_DEXS .
  have outside:
    "\<forall>dex. dex \<notin> {''uniswap'', ''uniswapv2'', ''sushiswap'', ''defiswap'', ''linkswap''} \<longrightarrow>
      map_of DEXS dex = None \<and>
      lookup dex = (if dex \<in> set objectPrototype then Some (Inherited dex) else None)"
  proof (intro allI impI)
    fix dex :: string
    assume "dex \<notin> {''uniswap'', ''uniswapv2'', ''sushiswap'', ''defiswap'', ''linkswap''}"
    then have o: "map_of DEXS dex = None" by (rule own)
    have "lookup dex = (if dex \<in> set objectPrototype then Some (Inherited dex) else None)"
      unfolding lookup_def o by (rule option.case(1))
    with o show "map_of DEXS dex = None \<and>
      lookup dex = (if dex \<in> set objectPrototype then Some (Inherited dex) else None)" ..
  qed
  from inside outside show ?thesis by (intro conjI) (elim conjE, assumption)+
qed

theorem registry_entries_witness:
  "''nonexistent'' \<notin> {''uniswap'', ''uniswapv2'', ''sushiswap'', ''defiswap'', ''linkswap''} \<and>
   ''nonexistent'' \<notin> set objectPrototype \<and>
   lookup ''nonexistent'' = None"
proof -
  have out: "''nonexistent'' \<notin> {''uniswap'', ''uniswapv2'', ''sushiswap'', ''defiswap'', ''linkswap''}"
    by simp
  have np: "''nonexistent'' \<notin> set objectPrototype"
    by (simp add: objectPrototype_def)
  from registry_entries
  have "''nonexistent'' \<notin> {''uniswap'', ''uniswapv2'', ''sushiswap'', ''defiswap'', ''linkswap''} \<longrightarrow>
      map_of DEXS ''nonexistent'' = None \<and>
      lookup ''nonexistent'' =
        (if ''nonexistent'' \<in> set objectPrototype then Some (Inherited ''nonexistent'') else None)"
    by (elim conjE allE)
  with out have "lookup ''nonexistent'' =
        (if ''nonexistent'' \<in> set objectPrototype then Some (Inherited ''nonexistent'') else None)"
    by (elim impE conjE) assumption+
  with np have "lookup ''nonexistent'' = None" by (simp only: if_False)
  with out np show ?thesis by (intro conjI)
qed

text \<open>
  Claim C7. For every public operation: when it delegates (its member is present and it
  does not return early) and the delegated call resolves with \<open>v\<close>, the operation resolves
  with \<open>v\<close> itself, in the state of the outside world the call left.
\<close>

theorem success_passes_through:
  assumes "sdk this (capability op) = Some f"
    and "\<not> returnsEarly op"
    and "f (arguments op) s = (Inr v, s')"
  shows "invoke this op s = (Inr (Payload v), s')"
  using assms by (simp add: invoke_unfold tryAwait_def)

theorem success_passes_through_witness:
  "\<exists>this f. constructor (resolving ''tokens'') None None (None :: unit option) (None :: unit option)
              (None :: unit option) (Some ()) = Inr this \<and>
     sdk this (capability Op_getTokens) = Some f \<and>
     \<not> returnsEarly Op_getTokens \<and>
     f (arguments Op_getTokens) [] = (Inr ''tokens'', [(SDK_getTokens, NoArgs)]) \<and>
     invoke this Op_getTokens [] = (Inr (Payload ''tokens''), [(SDK_getTokens, NoArgs)])"
proof -
  let ?cfg = "\<lparr>cfg_fetcher = constructFetchFetcher (), cfg_contractCaller = None,
       cfg_apiURL = API_URL, cfg_network = 1\<rparr> :: (unit, unit, unit, unit) ConstructInput"
  let ?I = "assemble (resolving ''tokens'') (constructFetchFetcher () :: (unit, unit) Fetcher)
              1 API_URL (None :: unit option) (None :: unit option)"
  let ?f = "resolving ''tokens'' ?cfg SDK_getTokens"
  have c: "constructor (resolving ''tokens'') None None (None :: unit option) (None :: unit option)
              (None :: unit option) (Some ()) = Inr ?I"
    by (simp add: constructor_def)
  have m: "sdk ?I (capability Op_getTokens) = Some ?f"
    by (simp add: sdk_assemble_readonly)
  have e: "\<not> returnsEarly Op_getTokens" by simp
  have r: "?f (arguments Op_getTokens) [] = (Inr ''tokens'', [(SDK_getTokens, NoArgs)])"
    by (simp add: resolving_def)
  from success_passes_through [OF m e r] c m e r show ?thesis by blast
qed

text \<open>
  Claim C8. Every normalised error a public operation returns carries a defined \<^verbatim>\<open>message\<close>.
  The type \<^verbatim>\<open>APIError\<close> declares \<^verbatim>\<open>message: string\<close>; the first branch of \<^verbatim>\<open>handleAPIError\<close>
  gives a string and the second the error's own message, a string on every \<^verbatim>\<open>Error\<close>
  instance; the third gives \<^verbatim>\<open>data.error\<close>, whatever the body holds. On a
  transport error whose response body has no \<^verbatim>\<open>error\<close> field (status 403, body
  \<^verbatim>\<open>{ message: "Forbidden" }\<close>) the token listing returns a normalised error whose \<^verbatim>\<open>message\<close>
  is \<^verbatim>\<open>undefined\<close>.
\<close>

theorem missing_error_field_undefined_message:
  "isAxiosError noErrorFieldFailure \<and>
   handleAPIError noErrorFieldFailure =
     Inr \<lparr>message = JUndefined, status = Some (JNum 403),
          data = Some (JObj [(''message'', JStr ''Forbidden'')])\<rparr> \<and>
   (\<exists>this. constructor (rejecting noErrorFieldFailure) None None (None :: unit option)
              (None :: unit option) (Some ()) (None :: unit option) = Inr this \<and>
      invoke this Op_getTokens [] =
        (Inr (Failure \<lparr>message = JUndefined, status = Some (JNum 403),
                data = Some (JObj [(''message'', JStr ''Forbidden'')])\<rparr>) ::
           error + unit Answer,
         [(SDK_getTokens, NoArgs)]))"
  by (simp add: noErrorFieldFailure_def isAxiosError_def handleAPIError_def member_def
      constructor_def sdk_assemble_readonly getTokens_def tryAwait_def rejecting_def)

text \<open>
  Claim C9. The set-provider operation changes nothing: it returns the instance it was
  called on, with the same SDK, network id, API URL and provider references, whatever its
  argument.
\<close>

theorem setWeb3Provider_noop:
  "setWeb3Provider this arg = this \<and>
   sdk (setWeb3Provider this arg) = sdk this \<and>
   network (setWeb3Provider this arg) = network this \<and>
   apiURL (setWeb3Provider this arg) = apiURL this \<and>
   web3Provider (setWeb3Provider this arg) = web3Provider this \<and>
   ethersProvider (setWeb3Provider this arg) = ethersProvider this"
  by (simp add: setWeb3Provider_def)

text \<open>
  Claim C10. The approval operations ignore their user address and their provider argument:
  two calls on one instance, in one state of the outside world, that differ in these only
  have the same outcome, and the delegated call is made with the amount and the token
  address (respectively the token addresses) only.
\<close>

theorem approve_ignores_user_and_provider:
  "approveToken this amount userAddress tokenAddress provider sendOptions s =
     approveToken this amount userAddress' tokenAddress provider' sendOptions s \<and>
   approveTokenBulk this amount userAddress tokenAddresses provider s =
     approveTokenBulk this amount userAddress' tokenAddresses provider' s \<and>
   approveToken this amount userAddress tokenAddress provider sendOptions s =
     (case sdk this SDK_approveToken of
        None \<Rightarrow> (Inl (AssertionError ''sdk must be initialized with a provider''), s)
      | Some f \<Rightarrow> tryAwait (f (ApproveArgs amount tokenAddress)) s) \<and>
   approveTokenBulk this amount userAddress tokenAddresses provider s =
     (case sdk this SDK_approveTokenBulk of
        None \<Rightarrow> (Inl (AssertionError ''sdk must be initialized with a provider''), s)
      | Some f \<Rightarrow> tryAwait (f (ApproveBulkArgs amount tokenAddresses)) s)"
  by (simp add: approveToken_def approveTokenBulk_def)

end
